theory Spec2Isabelle
  imports Main "HOL-Library.Word"
begin

section \<open>The GATT service collection of \<^verbatim>\<open>bleak/backends/service.py\<close>\<close>

text \<open>
  The module holds the abstract class \<^verbatim>\<open>BleakGATTService\<close> and the container
  \<^verbatim>\<open>BleakGATTServiceCollection\<close>: three dictionaries from integer handles to
  services, characteristics and descriptors, filled by \<^verbatim>\<open>add_service\<close>,
  \<^verbatim>\<open>add_characteristic\<close> and \<^verbatim>\<open>add_descriptor\<close>, and read by handle or by
  UUID. The embedding below follows the Python text function by function.
\<close>

subsection \<open>Strings\<close>

text \<open>
  A Python \<^verbatim>\<open>str\<close> is a \<open>string\<close>. UUID strings are ASCII, and \<^verbatim>\<open>str.lower()\<close> is
  modelled on ASCII: the letters \<open>A\<close> to \<open>Z\<close> (codes 65 to 90) move to \<open>a\<close> to \<open>z\<close>,
  every other character stays. Python also lower-cases letters outside ASCII; the model
  leaves them, so it stands for the code on ASCII strings only.
\<close>

definition lower_char :: "char \<Rightarrow> char" where
  "lower_char c =
     (let n = (of_char c :: nat) in if 65 \<le> n \<and> n \<le> 90 then char_of (n + 32) else c)"

definition lower :: "string \<Rightarrow> string" where
  "lower s = map lower_char s"

text \<open>
  A \<^verbatim>\<open>uuid.UUID\<close> object is its 128-bit value; \<^verbatim>\<open>str()\<close> of it is the standard
  library's rendering: 32 lower-case hexadecimal digits in groups of 8, 4, 4, 4 and 12,
  joined by hyphens.
\<close>

definition hex_digit :: "nat \<Rightarrow> char" where
  "hex_digit n = ''0123456789abcdef'' ! (n mod 16)"

fun hex :: "nat \<Rightarrow> nat \<Rightarrow> string" where
  "hex 0 v = []"
| "hex (Suc n) v = hex n (v div 16) @ [hex_digit v]"

definition str_UUID :: "128 word \<Rightarrow> string" where
  "str_UUID u =
     (let h = hex 32 (unat u)
      in take 8 h @ ''-'' @ take 4 (drop 8 h) @ ''-'' @ take 4 (drop 12 h) @ ''-'' @
         take 4 (drop 16 h) @ ''-'' @ drop 20 h)"

text \<open>
  The UUID arguments of the lookups are typed \<^verbatim>\<open>Union[str, UUID]\<close>, the specifiers of
  the collection \<^verbatim>\<open>Union[int, str, UUID]\<close>. Python's integers are unbounded.
\<close>

datatype uuid_arg = Str string | UUID "128 word"

fun py_str :: "uuid_arg \<Rightarrow> string" where
  "py_str (Str s) = s"
| "py_str (UUID u) = str_UUID u"

datatype specifier = Handle int | Uuid uuid_arg

text \<open>The f-string \<^verbatim>\<open>f"0000{uuid}-0000-1000-8000-00805f9b34fb"\<close> of both classes.\<close>

definition expand16 :: "string \<Rightarrow> string" where
  "expand16 s = ''0000'' @ s @ ''-0000-1000-8000-00805f9b34fb''"

subsection \<open>Objects\<close>

text \<open>
  A service, a characteristic and a descriptor are Python objects: each has an identity
  (the first field, an address) and the read-only properties the module reads. The lists
  an object owns (\<^verbatim>\<open>service.characteristics\<close>, \<^verbatim>\<open>characteristic.descriptors\<close>) are
  mutable and shared by every reference to the object, so they live in the state below,
  keyed by the object's identity, and not in the record.
\<close>

record service =
  svc_obj :: nat
  svc_handle :: int
  svc_uuid :: string

record characteristic =
  chr_obj :: nat
  chr_handle :: int
  chr_uuid :: string
  chr_service_handle :: int

record descriptor =
  dsc_obj :: nat
  dsc_handle :: int
  dsc_uuid :: string
  dsc_characteristic_handle :: int

subsection \<open>Dictionaries\<close>

text \<open>
  A Python \<^verbatim>\<open>dict\<close> keeps its keys in insertion order, and \<^verbatim>\<open>values()\<close> iterates in
  that order: an association list, read from the front, with a new key appended.
\<close>

type_synonym 'v dict = "(int \<times> 'v) list"

definition dict_contains :: "'v dict \<Rightarrow> int \<Rightarrow> bool" where
  "dict_contains d k = (map_of d k \<noteq> None)"

definition dict_get :: "'v dict \<Rightarrow> int \<Rightarrow> 'v option" where
  "dict_get d k = map_of d k"

fun dict_set :: "'v dict \<Rightarrow> int \<Rightarrow> 'v \<Rightarrow> 'v dict" where
  "dict_set [] k v = [(k, v)]"
| "dict_set ((k', v') # d) k v = (if k' = k then (k, v) # d else (k', v') # dict_set d k v)"

definition dict_values :: "'v dict \<Rightarrow> 'v list" where
  "dict_values d = map snd d"

subsection \<open>Errors, diagnostics and the state\<close>

text \<open>
  \<^verbatim>\<open>KeyError\<close> is what \<^verbatim>\<open>d[k]\<close> raises on a missing key, with the key as its
  argument; \<^verbatim>\<open>BleakError\<close> carries its message. \<^verbatim>\<open>logger.error\<close> appends to a log;
  a diagnostic records which message was logged, with the handle it was formatted with.
\<close>

datatype error = KeyError int | BleakError string

datatype diagnostic =
  ServiceAlreadyPresent int
| CharacteristicAlreadyPresent int
| DescriptorAlreadyPresent int

record state =
  services :: "service dict"
  characteristics :: "characteristic dict"
  descriptors :: "descriptor dict"
  service_characteristics :: "nat \<Rightarrow> characteristic list"
  characteristic_descriptors :: "nat \<Rightarrow> descriptor list"
  log :: "diagnostic list"

text \<open>\<^verbatim>\<open>BleakGATTServiceCollection.__init__\<close>: three empty dictionaries.\<close>

definition init :: state where
  "init = \<lparr>services = [], characteristics = [], descriptors = [],
           service_characteristics = (\<lambda>_. []), characteristic_descriptors = (\<lambda>_. []),
           log = []\<rparr>"

subsection \<open>\<^verbatim>\<open>BleakGATTService\<close>\<close>

text \<open>
  Modelled from the spec: \<^verbatim>\<open>BleakGATTService.add_characteristic\<close> is abstract in the
  module (its body raises \<^verbatim>\<open>NotImplementedError\<close>); the backends' implementations are
  not in the repository's files. The spec (4.2): "appends to the owned sequence", and
  "calling twice with the same characteristic produces a duplicate in the sequence".
\<close>

definition service_add_characteristic :: "service \<Rightarrow> characteristic \<Rightarrow> state \<Rightarrow> state" where
  "service_add_characteristic s c st =
     st\<lparr>service_characteristics :=
          (service_characteristics st)(svc_obj s := service_characteristics st (svc_obj s) @ [c])\<rparr>"

text \<open>
  Modelled from the spec: \<^verbatim>\<open>BleakGATTCharacteristic.add_descriptor\<close> is in
  \<^verbatim>\<open>bleak/backends/characteristic.py\<close>, not among the repository's files. The spec
  (4.3): "resolve and append into the owning characteristic's descriptor list".
\<close>

definition characteristic_add_descriptor :: "characteristic \<Rightarrow> descriptor \<Rightarrow> state \<Rightarrow> state" where
  "characteristic_add_descriptor c d st =
     st\<lparr>characteristic_descriptors :=
          (characteristic_descriptors st)
            (chr_obj c := characteristic_descriptors st (chr_obj c) @ [d])\<rparr>"

text \<open>
  \<^verbatim>\<open>BleakGATTService.get_characteristic\<close> (lines 61 to 81). The abstract property
  \<^verbatim>\<open>self.characteristics\<close> is the service's list in the state. \<^verbatim>\<open>next(filter(...))\<close>
  is the first element that passes; \<^verbatim>\<open>StopIteration\<close> is caught and gives \<^verbatim>\<open>None\<close>.
  No statement of the method raises, so every result is \<open>Inr\<close>.
\<close>

definition service_get_characteristic ::
  "state \<Rightarrow> service \<Rightarrow> uuid_arg \<Rightarrow> error + characteristic option" where
  "service_get_characteristic st self uuid =
     (let uuid' = (case uuid of
                     Str s \<Rightarrow> if length s = 4 then Str (expand16 s) else uuid
                   | UUID _ \<Rightarrow> uuid)
      in Inr (List.find (\<lambda>x. chr_uuid x = lower (py_str uuid'))
                (service_characteristics st (svc_obj self))))"

subsection \<open>\<^verbatim>\<open>BleakGATTServiceCollection\<close>\<close>

text \<open>\<^verbatim>\<open>add_service\<close> (lines 123 to 134).\<close>

definition add_service :: "service \<Rightarrow> state \<Rightarrow> (error + unit) \<times> state" where
  "add_service service st =
     (if \<not> dict_contains (services st) (svc_handle service)
      then (Inr (), st\<lparr>services := dict_set (services st) (svc_handle service) service\<rparr>)
      else (Inr (), st\<lparr>log := log st @ [ServiceAlreadyPresent (svc_handle service)]\<rparr>))"

definition multiple_services :: string where
  "multiple_services =
     ''Multiple Services with this UUID, refer to your desired service by the `handle` attribute instead.''"

definition multiple_characteristics :: string where
  "multiple_characteristics =
     ''Multiple Characteristics with this UUID, refer to your desired characteristic by the `handle` attribute instead.''"

text \<open>
  \<^verbatim>\<open>get_service\<close> (lines 136 to 162): an integer goes to \<^verbatim>\<open>dict.get\<close>; anything else
  is turned into a lower-case string, expanded when it has four characters, and compared
  with the lower-cased UUID of every stored service.
\<close>

definition get_service :: "state \<Rightarrow> specifier \<Rightarrow> error + service option" where
  "get_service st specifier =
     (case specifier of
        Handle h \<Rightarrow> Inr (dict_get (services st) h)
      | Uuid u \<Rightarrow>
          (let s0 = lower (py_str u);
               s1 = (if length s0 = 4 then expand16 s0 else s0);
               x = filter (\<lambda>x. lower (svc_uuid x) = s1) (dict_values (services st))
           in if length x > 1 then Inl (BleakError multiple_services)
              else Inr (case x of [] \<Rightarrow> None | y # _ \<Rightarrow> Some y)))"

text \<open>
  \<^verbatim>\<open>add_characteristic\<close> (lines 164 to 178). The dictionary is written before
  \<^verbatim>\<open>self.__services[...]\<close> is read, so the \<^verbatim>\<open>KeyError\<close> of a missing service leaves
  the state with the new entry: the result carries the state in both cases.
\<close>

definition add_characteristic :: "characteristic \<Rightarrow> state \<Rightarrow> (error + unit) \<times> state" where
  "add_characteristic characteristic st =
     (if \<not> dict_contains (characteristics st) (chr_handle characteristic)
      then
        (let st1 = st\<lparr>characteristics :=
                        dict_set (characteristics st) (chr_handle characteristic) characteristic\<rparr>
         in case dict_get (services st1) (chr_service_handle characteristic) of
              None \<Rightarrow> (Inl (KeyError (chr_service_handle characteristic)), st1)
            | Some s \<Rightarrow> (Inr (), service_add_characteristic s characteristic st1))
      else (Inr (), st\<lparr>log := log st @ [CharacteristicAlreadyPresent (chr_handle characteristic)]\<rparr>))"

text \<open>
  \<^verbatim>\<open>get_characteristic\<close> (lines 180 to 200): the specifier is lower-cased and compared
  with the stored UUID as it is; there is no expansion here.
\<close>

definition get_characteristic :: "state \<Rightarrow> specifier \<Rightarrow> error + characteristic option" where
  "get_characteristic st specifier =
     (case specifier of
        Handle h \<Rightarrow> Inr (dict_get (characteristics st) h)
      | Uuid u \<Rightarrow>
          (let x = filter (\<lambda>x. chr_uuid x = lower (py_str u)) (dict_values (characteristics st))
           in if length x > 1 then Inl (BleakError multiple_characteristics)
              else Inr (case x of [] \<Rightarrow> None | y # _ \<Rightarrow> Some y)))"

text \<open>\<^verbatim>\<open>add_descriptor\<close> (lines 202 to 216).\<close>

definition add_descriptor :: "descriptor \<Rightarrow> state \<Rightarrow> (error + unit) \<times> state" where
  "add_descriptor descriptor st =
     (if \<not> dict_contains (descriptors st) (dsc_handle descriptor)
      then
        (let st1 = st\<lparr>descriptors :=
                        dict_set (descriptors st) (dsc_handle descriptor) descriptor\<rparr>
         in case dict_get (characteristics st1) (dsc_characteristic_handle descriptor) of
              None \<Rightarrow> (Inl (KeyError (dsc_characteristic_handle descriptor)), st1)
            | Some c \<Rightarrow> (Inr (), characteristic_add_descriptor c descriptor st1))
      else (Inr (), st\<lparr>log := log st @ [DescriptorAlreadyPresent (dsc_handle descriptor)]\<rparr>))"

text \<open>
  \<^verbatim>\<open>get_descriptor\<close> (lines 218 to 220) is \<^verbatim>\<open>self.descriptors.get(handle)\<close>. The
  annotation says \<^verbatim>\<open>int\<close>, but \<^verbatim>\<open>__getitem__\<close> passes its argument on whatever it is.
  The keys of the dictionary are the integer handles \<^verbatim>\<open>add_descriptor\<close> stored, and a
  string or a \<^verbatim>\<open>UUID\<close> object equals no integer, so \<^verbatim>\<open>dict.get\<close> finds nothing for it.
\<close>

definition get_descriptor :: "state \<Rightarrow> specifier \<Rightarrow> descriptor option" where
  "get_descriptor st handle =
     (case handle of
        Handle h \<Rightarrow> dict_get (descriptors st) h
      | Uuid _ \<Rightarrow> None)"

text \<open>
  \<^verbatim>\<open>__getitem__\<close> (lines 92 to 102): \<^verbatim>\<open>a or b or c\<close> gives the first operand that is
  true. None of the three classes defines \<^verbatim>\<open>__bool__\<close> or \<^verbatim>\<open>__len__\<close>, so an object is
  true and only \<^verbatim>\<open>None\<close> moves on to the next lookup; an exception of a lookup leaves
  the expression at once.
\<close>

datatype entity = Service service | Characteristic characteristic | Descriptor descriptor

definition getitem :: "state \<Rightarrow> specifier \<Rightarrow> error + entity option" where
  "getitem st item =
     (case get_service st item of
        Inl e \<Rightarrow> Inl e
      | Inr (Some s) \<Rightarrow> Inr (Some (Service s))
      | Inr None \<Rightarrow>
          (case get_characteristic st item of
             Inl e \<Rightarrow> Inl e
           | Inr (Some c) \<Rightarrow> Inr (Some (Characteristic c))
           | Inr None \<Rightarrow> Inr (map_option Descriptor (get_descriptor st item))))"

subsection \<open>Notions the properties are stated with\<close>

text \<open>
  A stored entity matches a UUID argument when its lower-cased UUID string is the
  argument's string, lower-cased and, if that has four characters, expanded (spec, 3 and
  4.3). For services this is what the filter of \<^verbatim>\<open>get_service\<close> keeps (lines 143 to
  155); for characteristics the notion is the same one.
\<close>

definition service_matches :: "state \<Rightarrow> uuid_arg \<Rightarrow> service list" where
  "service_matches st u =
     filter (\<lambda>x. lower (svc_uuid x) =
                  (if length (lower (py_str u)) = 4 then expand16 (lower (py_str u))
                   else lower (py_str u)))
       (dict_values (services st))"

definition characteristic_matches :: "state \<Rightarrow> uuid_arg \<Rightarrow> characteristic list" where
  "characteristic_matches st u =
     filter (\<lambda>x. lower (chr_uuid x) =
                  (if length (lower (py_str u)) = 4 then expand16 (lower (py_str u))
                   else lower (py_str u)))
       (dict_values (characteristics st))"

text \<open>
  What the filter of \<^verbatim>\<open>get_characteristic\<close> keeps (lines 188 to 193): the stored UUID
  as it is against the lower-cased argument.
\<close>

definition characteristic_filter :: "state \<Rightarrow> uuid_arg \<Rightarrow> characteristic list" where
  "characteristic_filter st u =
     filter (\<lambda>x. chr_uuid x = lower (py_str u)) (dict_values (characteristics st))"

text \<open>
  The string \<^verbatim>\<open>BleakGATTService.get_characteristic\<close> compares the stored UUIDs with
  (lines 73 to 78): a four-character \<^verbatim>\<open>str\<close> is expanded, and the result is lower-cased.
\<close>

definition service_query :: "uuid_arg \<Rightarrow> string" where
  "service_query u =
     (case u of
        Str s \<Rightarrow> if length s = 4 then expand16 (lower s) else lower s
      | UUID w \<Rightarrow> lower (str_UUID w))"

text \<open>
  Every characteristic in a child list of a service is stored in the characteristic
  dictionary under its own handle.
\<close>

definition children_stored :: "state \<Rightarrow> bool" where
  "children_stored st =
     (\<forall>i. \<forall>x \<in> set (service_characteristics st i).
        map_of (characteristics st) (chr_handle x) = Some x)"

text \<open>
  The two views of the characteristics agree: the child list of every stored service is
  the list of the stored characteristics that name the service's handle, in insertion
  order.
\<close>

definition views_agree :: "state \<Rightarrow> bool" where
  "views_agree st =
     (\<forall>(k, s) \<in> set (services st).
        service_characteristics st (svc_obj s) =
          filter (\<lambda>x. chr_service_handle x = k) (dict_values (characteristics st)))"

text \<open>
  A state as error-free discovery leaves it: the service dictionary has each key once
  and each object once, every characteristic is stored under its own handle, and the
  two views agree.
\<close>

definition consistent :: "state \<Rightarrow> bool" where
  "consistent st =
     (distinct (map fst (services st)) \<and>
      distinct (map (svc_obj \<circ> snd) (services st)) \<and>
      (\<forall>(k, x) \<in> set (characteristics st). chr_handle x = k) \<and>
      views_agree st)"

subsection \<open>Example objects and states\<close>

text \<open>
  The examples of the spec: service A (handle 1) and service B (handle 2) share the
  UUID 0x1800; characteristic C has handle 10 and belongs to service 1.
\<close>

definition service_A :: service where
  "service_A = \<lparr>svc_obj = 1, svc_handle = 1, svc_uuid = ''00001800-0000-1000-8000-00805f9b34fb''\<rparr>"

definition service_B :: service where
  "service_B = \<lparr>svc_obj = 2, svc_handle = 2, svc_uuid = ''00001800-0000-1000-8000-00805f9b34fb''\<rparr>"

text \<open>Another service object that carries handle 1.\<close>

definition service_A2 :: service where
  "service_A2 = \<lparr>svc_obj = 3, svc_handle = 1, svc_uuid = ''0000180f-0000-1000-8000-00805f9b34fb''\<rparr>"

definition characteristic_C :: characteristic where
  "characteristic_C =
     \<lparr>chr_obj = 4, chr_handle = 10, chr_uuid = ''00002a00-0000-1000-8000-00805f9b34fb'',
      chr_service_handle = 1\<rparr>"

text \<open>A second characteristic of service 1 with the UUID of C, and another object with the handle of C.\<close>

definition characteristic_D :: characteristic where
  "characteristic_D =
     \<lparr>chr_obj = 5, chr_handle = 11, chr_uuid = ''00002a00-0000-1000-8000-00805f9b34fb'',
      chr_service_handle = 1\<rparr>"


definition descriptor_E :: descriptor where
  "descriptor_E =
     \<lparr>dsc_obj = 7, dsc_handle = 20, dsc_uuid = ''00002902-0000-1000-8000-00805f9b34fb'',
      dsc_characteristic_handle = 10\<rparr>"

text \<open>A service and a characteristic whose UUID strings hold upper-case letters.\<close>

definition service_U :: service where
  "service_U = \<lparr>svc_obj = 8, svc_handle = 3, svc_uuid = ''0000180A-0000-1000-8000-00805F9B34FB''\<rparr>"

definition characteristic_U :: characteristic where
  "characteristic_U =
     \<lparr>chr_obj = 9, chr_handle = 12, chr_uuid = ''00002A19-0000-1000-8000-00805F9B34FB'',
      chr_service_handle = 3\<rparr>"

definition st_A :: state where
  "st_A = snd (add_service service_A init)"

definition st_AB :: state where
  "st_AB = snd (add_service service_B st_A)"

definition st_AC :: state where
  "st_AC = snd (add_characteristic characteristic_C st_A)"

definition st_ACD :: state where
  "st_ACD = snd (add_characteristic characteristic_D st_AC)"

definition st_ACE :: state where
  "st_ACE = snd (add_descriptor descriptor_E st_AC)"

text \<open>Characteristic C added to the empty collection: the call raises, C stays stored.\<close>

definition st_orphan :: state where
  "st_orphan = snd (add_characteristic characteristic_C init)"


definition st_orphan_descriptor :: state where
  "st_orphan_descriptor = snd (add_descriptor descriptor_E init)"

definition st_U :: state where
  "st_U = snd (add_characteristic characteristic_U (snd (add_service service_U init)))"

section \<open>Properties\<close>

subsection \<open>Dictionaries and strings\<close>

lemma dict_set_fresh: "map_of d k = None \<Longrightarrow> dict_set d k v = d @ [(k, v)]"
  by (induction d) (auto split: if_splits)

lemma lower_char_idem: "lower_char (lower_char c) = lower_char c"
  by (simp add: lower_char_def Let_def)

lemma lower_idem: "lower (lower s) = lower s"
  by (simp add: lower_def lower_char_idem)

lemma length_lower: "length (lower s) = length s"
  by (simp add: lower_def)

lemma lower_expand16: "lower (expand16 s) = expand16 (lower s)"
  by (simp add: lower_def expand16_def lower_char_def)

lemma length_hex: "length (hex n v) = n"
  by (induction n arbitrary: v) auto

lemma length_str_UUID: "length (str_UUID u) = 36"
  by (simp add: str_UUID_def Let_def length_hex)

subsection \<open>Adding and finding a service\<close>

text \<open>
  Claim C5. After \<^verbatim>\<open>add_service(s)\<close>, \<^verbatim>\<open>get_service(s.handle)\<close> returns the service
  that was stored first under that handle: \<open>s\<close> itself when the handle was new (the
  first \<^verbatim>\<open>add_service\<close> of the claim), the earlier entry otherwise. A second
  \<^verbatim>\<open>add_service\<close> with a service \<open>s'\<close> of the same handle returns no error and
  changes nothing of the state but the log, which gains one diagnostic: the dictionary,
  and so the stored entry, is as it was.
\<close>

theorem add_service_then_get:
  "get_service (snd (add_service s st)) (Handle (svc_handle s)) =
     Inr (Some (case dict_get (services st) (svc_handle s) of None \<Rightarrow> s | Some s0 \<Rightarrow> s0)) \<and>
   (\<not> dict_contains (services st) (svc_handle s) \<longrightarrow>
      get_service (snd (add_service s st)) (Handle (svc_handle s)) = Inr (Some s)) \<and>
   (svc_handle s' = svc_handle s \<longrightarrow>
      add_service s' (snd (add_service s st)) =
        (Inr (), (snd (add_service s st))
                   \<lparr>log := log (snd (add_service s st)) @ [ServiceAlreadyPresent (svc_handle s')]\<rparr>))"
  by (auto simp: add_service_def get_service_def dict_contains_def dict_get_def
      dict_set_fresh map_add_def)

theorem add_service_then_get_witness:
  "get_service st_A (Handle 1) = Inr (Some service_A) \<and>
   add_service service_A2 st_A = (Inr (), st_A\<lparr>log := [ServiceAlreadyPresent 1]\<rparr>) \<and>
   get_service (snd (add_service service_A2 st_A)) (Handle 1) = Inr (Some service_A)"
proof -
  have h: "\<not> dict_contains (services init) (svc_handle service_A)"
    by (simp add: init_def dict_contains_def)
  have k: "svc_handle service_A2 = svc_handle service_A"
    by (simp add: service_A_def service_A2_def)
  have one: "svc_handle service_A = 1" "svc_handle service_A2 = 1"
    by (simp_all add: service_A_def service_A2_def)
  have l: "log st_A = []"
    by (simp add: st_A_def add_service_def init_def dict_contains_def)
  note t = add_service_then_get [of service_A init service_A2, folded st_A_def]
  from t h have "get_service st_A (Handle (svc_handle service_A)) = Inr (Some service_A)"
    by blast
  then have a: "get_service st_A (Handle 1) = Inr (Some service_A)"
    by (simp only: one)
  from t k have "add_service service_A2 st_A =
      (Inr (), st_A\<lparr>log := log st_A @ [ServiceAlreadyPresent (svc_handle service_A2)]\<rparr>)"
    by blast
  then have b: "add_service service_A2 st_A = (Inr (), st_A\<lparr>log := [ServiceAlreadyPresent 1]\<rparr>)"
    by (simp only: one l append_Nil)
  have "get_service (st_A\<lparr>log := [ServiceAlreadyPresent 1]\<rparr>) (Handle 1) = get_service st_A (Handle 1)"
    by (simp add: get_service_def)
  with a b show ?thesis by simp
qed

subsection \<open>Lookup by UUID\<close>

text \<open>
  \<^verbatim>\<open>get_service\<close> answers by the number of matching services: none gives
  \<^verbatim>\<open>None\<close>, one gives that service, more give the \<^verbatim>\<open>BleakError\<close>.
  \<^verbatim>\<open>get_characteristic\<close> answers in the same way by the number of characteristics
  its own filter keeps.
\<close>

lemma get_service_three_way:
  "(service_matches st u = [] \<longrightarrow> get_service st (Uuid u) = Inr None) \<and>
   (\<forall>s. service_matches st u = [s] \<longrightarrow> get_service st (Uuid u) = Inr (Some s)) \<and>
   (length (service_matches st u) > 1 \<longrightarrow>
      get_service st (Uuid u) = Inl (BleakError multiple_services))"
  by (simp add: get_service_def service_matches_def Let_def)

lemma get_characteristic_three_way_filter:
  "(characteristic_filter st u = [] \<longrightarrow> get_characteristic st (Uuid u) = Inr None) \<and>
   (\<forall>c. characteristic_filter st u = [c] \<longrightarrow>
      get_characteristic st (Uuid u) = Inr (Some c)) \<and>
   (length (characteristic_filter st u) > 1 \<longrightarrow>
      get_characteristic st (Uuid u) = Inl (BleakError multiple_characteristics))"
  by (simp add: get_characteristic_def characteristic_filter_def Let_def)

text \<open>
  The filter keeps the matching characteristics when every stored UUID is lower-case
  and the argument is no four-character string.
\<close>

lemma characteristic_filter_matches:
  assumes "\<forall>x \<in> set (dict_values (characteristics st)). lower (chr_uuid x) = chr_uuid x"
    and "length (py_str u) \<noteq> 4"
  shows "characteristic_filter st u = characteristic_matches st u"
  unfolding characteristic_filter_def characteristic_matches_def
  using assms by (intro filter_cong) (auto simp: length_lower)

text \<open>
  Claim C2 does not hold of the code, in its second half. For services the three cases
  are as claimed: one match in \<open>st_A\<close> is returned, two matches in \<open>st_AB\<close> raise.
  For characteristics they are not: in \<open>st_AC\<close> exactly one characteristic matches
  \<open>2a00\<close> and \<^verbatim>\<open>get_characteristic\<close> returns \<^verbatim>\<open>None\<close>; in \<open>st_ACD\<close> two match and
  it returns \<^verbatim>\<open>None\<close> where the claim has the ambiguity error; in \<open>st_U\<close> exactly one
  matches the lower-case spelling and it returns \<^verbatim>\<open>None\<close>.
\<close>

theorem uuid_lookup_one_match_absent:
  "service_matches st_A (Str ''1800'') = [service_A] \<and>
   get_service st_A (Uuid (Str ''1800'')) = Inr (Some service_A) \<and>
   service_matches st_AB (Str ''1800'') = [service_A, service_B] \<and>
   get_service st_AB (Uuid (Str ''1800'')) = Inl (BleakError multiple_services) \<and>
   characteristic_matches st_AC (Str ''2a00'') = [characteristic_C] \<and>
   get_characteristic st_AC (Uuid (Str ''2a00'')) = Inr None \<and>
   characteristic_matches st_ACD (Str ''2a00'') = [characteristic_C, characteristic_D] \<and>
   get_characteristic st_ACD (Uuid (Str ''2a00'')) = Inr None \<and>
   characteristic_matches st_U (Str ''00002a19-0000-1000-8000-00805f9b34fb'') =
     [characteristic_U] \<and>
   get_characteristic st_U (Uuid (Str ''00002a19-0000-1000-8000-00805f9b34fb'')) = Inr None"
  by code_simp

subsection \<open>Descriptors\<close>

text \<open>
  Claim C9. \<^verbatim>\<open>get_descriptor\<close> looks a descriptor up by its integer handle only: for
  a UUID argument it returns \<^verbatim>\<open>None\<close> in every collection, for an integer it is the
  dictionary's entry, and whenever it returns a descriptor the argument was an integer
  key holding that descriptor. A descriptor just stored is found by its handle and not
  by its own UUID string.
\<close>

theorem get_descriptor_handle_only:
  "get_descriptor st (Uuid u) = None \<and>
   get_descriptor st (Handle h) = dict_get (descriptors st) h \<and>
   (get_descriptor st x = Some d' \<longrightarrow>
      (\<exists>k. x = Handle k \<and> dict_get (descriptors st) k = Some d')) \<and>
   (\<not> dict_contains (descriptors st) (dsc_handle d) \<longrightarrow>
      get_descriptor (snd (add_descriptor d st)) (Handle (dsc_handle d)) = Some d \<and>
      get_descriptor (snd (add_descriptor d st)) (Uuid (Str (dsc_uuid d))) = None)"
  by (cases x)
    (auto simp: get_descriptor_def dict_get_def add_descriptor_def dict_contains_def
      characteristic_add_descriptor_def dict_set_fresh Let_def map_add_def split: option.splits)

theorem get_descriptor_handle_only_witness:
  "get_descriptor st_ACE (Handle 20) = Some descriptor_E \<and>
   get_descriptor st_ACE (Uuid (Str ''00002902-0000-1000-8000-00805f9b34fb'')) = None \<and>
   dsc_uuid descriptor_E = ''00002902-0000-1000-8000-00805f9b34fb''"
proof -
  have h: "\<not> dict_contains (descriptors st_AC) (dsc_handle descriptor_E)" by code_simp
  have e: "dsc_handle descriptor_E = 20"
    "dsc_uuid descriptor_E = ''00002902-0000-1000-8000-00805f9b34fb''"
    by (simp_all add: descriptor_E_def)
  from get_descriptor_handle_only [of st_AC _ _ _ _ descriptor_E, folded st_ACE_def] h
  have "get_descriptor st_ACE (Handle (dsc_handle descriptor_E)) = Some descriptor_E \<and>
      get_descriptor st_ACE (Uuid (Str (dsc_uuid descriptor_E))) = None"
    by blast
  then show ?thesis by (simp add: e)
qed

subsection \<open>Combined lookup\<close>

text \<open>
  Claim C7. \<^verbatim>\<open>collection[x]\<close> tries the service lookup, then the characteristic
  lookup, then the descriptor lookup, and returns the first result that is not
  \<^verbatim>\<open>None\<close>, or \<^verbatim>\<open>None\<close> when all three find nothing. In particular an integer
  handle that is no key of the service dictionary and a key of the characteristic
  dictionary gives the characteristic.
\<close>

theorem getitem_priority:
  "(get_service st x = Inr (Some s) \<longrightarrow> getitem st x = Inr (Some (Service s))) \<and>
   (get_service st x = Inr None \<and> get_characteristic st x = Inr (Some c) \<longrightarrow>
      getitem st x = Inr (Some (Characteristic c))) \<and>
   (get_service st x = Inr None \<and> get_characteristic st x = Inr None \<and>
    get_descriptor st x = Some d \<longrightarrow> getitem st x = Inr (Some (Descriptor d))) \<and>
   (get_service st x = Inr None \<and> get_characteristic st x = Inr None \<and>
    get_descriptor st x = None \<longrightarrow> getitem st x = Inr None) \<and>
   (dict_get (services st) h = None \<and> dict_get (characteristics st) h = Some c \<longrightarrow>
      getitem st (Handle h) = Inr (Some (Characteristic c)))"
  by (simp add: getitem_def get_service_def get_characteristic_def)

theorem getitem_priority_witness:
  "getitem st_ACE (Handle 1) = Inr (Some (Service service_A)) \<and>
   getitem st_ACE (Handle 10) = Inr (Some (Characteristic characteristic_C)) \<and>
   getitem st_ACE (Handle 20) = Inr (Some (Descriptor descriptor_E)) \<and>
   getitem st_ACE (Handle 30) = Inr None"
proof -
  have s1: "get_service st_ACE (Handle 1) = Inr (Some service_A)" by code_simp
  have s10: "dict_get (services st_ACE) 10 = None" by code_simp
  have c10: "dict_get (characteristics st_ACE) 10 = Some characteristic_C" by code_simp
  have s20: "get_service st_ACE (Handle 20) = Inr None" by code_simp
  have c20: "get_characteristic st_ACE (Handle 20) = Inr None" by code_simp
  have d20: "get_descriptor st_ACE (Handle 20) = Some descriptor_E" by code_simp
  have s30: "get_service st_ACE (Handle 30) = Inr None" by code_simp
  have c30: "get_characteristic st_ACE (Handle 30) = Inr None" by code_simp
  have d30: "get_descriptor st_ACE (Handle 30) = None" by code_simp
  from getitem_priority [of st_ACE "Handle 1" service_A] s1
  have a: "getitem st_ACE (Handle 1) = Inr (Some (Service service_A))" by blast
  from getitem_priority [of st_ACE _ _ characteristic_C _ 10] s10 c10
  have b: "getitem st_ACE (Handle 10) = Inr (Some (Characteristic characteristic_C))" by blast
  from getitem_priority [of st_ACE "Handle 20" _ _ descriptor_E] s20 c20 d20
  have c: "getitem st_ACE (Handle 20) = Inr (Some (Descriptor descriptor_E))" by blast
  from getitem_priority [of st_ACE "Handle 30"] s30 c30 d30
  have d: "getitem st_ACE (Handle 30) = Inr None" by blast
  from a b c d show ?thesis by blast
qed

subsection \<open>Children are stored\<close>

text \<open>
  From the empty collection on, whatever the three \<^verbatim>\<open>add_\<close> methods return, every
  characteristic in a service's child list is stored under its handle.
\<close>

lemma children_stored_init: "children_stored init"
  by (simp add: children_stored_def init_def)

lemma children_stored_add_service:
  "children_stored st \<Longrightarrow> children_stored (snd (add_service s st))"
  by (simp add: children_stored_def add_service_def)

lemma children_stored_add_descriptor:
  "children_stored st \<Longrightarrow> children_stored (snd (add_descriptor d st))"
  by (simp add: children_stored_def add_descriptor_def characteristic_add_descriptor_def
      Let_def split: option.splits)


subsection \<open>A missing parent\<close>

text \<open>
  Claim C1, as stated, fails: characteristic C names service 1, the collection
  \<open>st_orphan\<close> has no service at all, and \<^verbatim>\<open>add_characteristic(C)\<close> returns without
  an error, because C's handle is already a key of the characteristic dictionary and the
  method only logs the duplicate. The same happens to descriptor E, which names
  characteristic 10, in \<open>st_orphan_descriptor\<close>.
\<close>

theorem add_missing_parent_counterexample:
  "\<not> dict_contains (services st_orphan) (chr_service_handle characteristic_C) \<and>
   fst (add_characteristic characteristic_C st_orphan) = Inr () \<and>
   \<not> dict_contains (characteristics st_orphan_descriptor)
        (dsc_characteristic_handle descriptor_E) \<and>
   fst (add_descriptor descriptor_E st_orphan_descriptor) = Inr ()"
  by code_simp

text \<open>
  Claim C1, amended. When the handle of \<open>c\<close> is not yet a key of the characteristic
  dictionary and \<^verbatim>\<open>c.service_handle\<close> is no key of the service dictionary,
  \<^verbatim>\<open>add_characteristic(c)\<close> raises the \<^verbatim>\<open>KeyError\<close> of the failed dictionary access
  to its caller. When the handle of \<open>c\<close> is already a key, the call logs the duplicate
  and returns without an error, whether the service exists or not. \<^verbatim>\<open>add_descriptor\<close>
  behaves in the same way with the descriptor and the characteristic dictionaries.
\<close>

theorem add_missing_parent:
  "(\<not> dict_contains (characteristics st) (chr_handle c) \<and>
    \<not> dict_contains (services st) (chr_service_handle c) \<longrightarrow>
      fst (add_characteristic c st) = Inl (KeyError (chr_service_handle c))) \<and>
   (dict_contains (characteristics st) (chr_handle c) \<longrightarrow>
      add_characteristic c st =
        (Inr (), st\<lparr>log := log st @ [CharacteristicAlreadyPresent (chr_handle c)]\<rparr>)) \<and>
   (\<not> dict_contains (descriptors st) (dsc_handle d) \<and>
    \<not> dict_contains (characteristics st) (dsc_characteristic_handle d) \<longrightarrow>
      fst (add_descriptor d st) = Inl (KeyError (dsc_characteristic_handle d))) \<and>
   (dict_contains (descriptors st) (dsc_handle d) \<longrightarrow>
      add_descriptor d st =
        (Inr (), st\<lparr>log := log st @ [DescriptorAlreadyPresent (dsc_handle d)]\<rparr>))"
  by (simp add: add_characteristic_def add_descriptor_def dict_contains_def dict_get_def Let_def)

theorem add_missing_parent_witness:
  "fst (add_characteristic characteristic_C init) = Inl (KeyError 1) \<and>
   fst (add_descriptor descriptor_E init) = Inl (KeyError 10) \<and>
   add_characteristic characteristic_C st_orphan =
     (Inr (), st_orphan\<lparr>log := log st_orphan @ [CharacteristicAlreadyPresent 10]\<rparr>) \<and>
   add_descriptor descriptor_E st_orphan_descriptor =
     (Inr (), st_orphan_descriptor
                \<lparr>log := log st_orphan_descriptor @ [DescriptorAlreadyPresent 20]\<rparr>)"
proof -
  have h: "\<not> dict_contains (characteristics init) (chr_handle characteristic_C)"
    "\<not> dict_contains (services init) (chr_service_handle characteristic_C)"
    "\<not> dict_contains (descriptors init) (dsc_handle descriptor_E)"
    "\<not> dict_contains (characteristics init) (dsc_characteristic_handle descriptor_E)"
    by (simp_all add: init_def dict_contains_def)
  have k: "dict_contains (characteristics st_orphan) (chr_handle characteristic_C)"
    "dict_contains (descriptors st_orphan_descriptor) (dsc_handle descriptor_E)"
    by code_simp+
  have v: "chr_service_handle characteristic_C = 1" "chr_handle characteristic_C = 10"
    "dsc_characteristic_handle descriptor_E = 10" "dsc_handle descriptor_E = 20"
    by (simp_all add: characteristic_C_def descriptor_E_def)
  from add_missing_parent [of init characteristic_C descriptor_E] h
  have a: "fst (add_characteristic characteristic_C init) =
             Inl (KeyError (chr_service_handle characteristic_C))"
    and b: "fst (add_descriptor descriptor_E init) =
             Inl (KeyError (dsc_characteristic_handle descriptor_E))"
    by blast+
  from add_missing_parent [of st_orphan characteristic_C] k(1)
  have c: "add_characteristic characteristic_C st_orphan =
     (Inr (), st_orphan\<lparr>log := log st_orphan @
        [CharacteristicAlreadyPresent (chr_handle characteristic_C)]\<rparr>)"
    by blast
  from add_missing_parent [of st_orphan_descriptor _ descriptor_E] k(2)
  have d: "add_descriptor descriptor_E st_orphan_descriptor =
     (Inr (), st_orphan_descriptor\<lparr>log := log st_orphan_descriptor @
        [DescriptorAlreadyPresent (dsc_handle descriptor_E)]\<rparr>)"
    by blast
  from a b c d show ?thesis by (simp only: v simp_thms)
qed

text \<open>
  Claim C10. When the handle of \<open>c\<close> is new and its service is missing,
  \<^verbatim>\<open>add_characteristic(c)\<close> raises after it has stored \<open>c\<close>: the state that the
  exception leaves has \<open>c\<close> as the last entry of the characteristic dictionary,
  \<^verbatim>\<open>get_characteristic(c.handle)\<close> returns \<open>c\<close>, no child list has changed, and
  (children being stored) \<open>c\<close> is in no child list. \<^verbatim>\<open>add_descriptor\<close> stores the
  descriptor before its \<^verbatim>\<open>KeyError\<close> in the same way.
\<close>

theorem add_not_atomic:
  "(\<not> dict_contains (characteristics st) (chr_handle c) \<and>
    \<not> dict_contains (services st) (chr_service_handle c) \<longrightarrow>
      add_characteristic c st =
        (Inl (KeyError (chr_service_handle c)),
         st\<lparr>characteristics := characteristics st @ [(chr_handle c, c)]\<rparr>) \<and>
      get_characteristic (snd (add_characteristic c st)) (Handle (chr_handle c)) =
        Inr (Some c) \<and>
      service_characteristics (snd (add_characteristic c st)) = service_characteristics st \<and>
      (children_stored st \<longrightarrow>
         (\<forall>i. c \<notin> set (service_characteristics (snd (add_characteristic c st)) i)))) \<and>
   (\<not> dict_contains (descriptors st) (dsc_handle d) \<and>
    \<not> dict_contains (characteristics st) (dsc_characteristic_handle d) \<longrightarrow>
      add_descriptor d st =
        (Inl (KeyError (dsc_characteristic_handle d)),
         st\<lparr>descriptors := descriptors st @ [(dsc_handle d, d)]\<rparr>) \<and>
      get_descriptor (snd (add_descriptor d st)) (Handle (dsc_handle d)) = Some d \<and>
      characteristic_descriptors (snd (add_descriptor d st)) = characteristic_descriptors st)"
  by (auto simp: add_characteristic_def add_descriptor_def dict_contains_def dict_get_def
      Let_def dict_set_fresh get_characteristic_def get_descriptor_def map_add_def
      children_stored_def)

theorem add_not_atomic_witness:
  "add_characteristic characteristic_C init =
     (Inl (KeyError 1), init\<lparr>characteristics := [(10, characteristic_C)]\<rparr>) \<and>
   get_characteristic st_orphan (Handle 10) = Inr (Some characteristic_C) \<and>
   (\<forall>i. characteristic_C \<notin> set (service_characteristics st_orphan i)) \<and>
   add_descriptor descriptor_E init =
     (Inl (KeyError 10), init\<lparr>descriptors := [(20, descriptor_E)]\<rparr>) \<and>
   get_descriptor st_orphan_descriptor (Handle 20) = Some descriptor_E"
proof -
  have h: "\<not> dict_contains (characteristics init) (chr_handle characteristic_C)"
    "\<not> dict_contains (services init) (chr_service_handle characteristic_C)"
    "\<not> dict_contains (descriptors init) (dsc_handle descriptor_E)"
    "\<not> dict_contains (characteristics init) (dsc_characteristic_handle descriptor_E)"
    by (simp_all add: init_def dict_contains_def)
  have i: "children_stored init"
    by (simp add: children_stored_def init_def)
  have v: "chr_service_handle characteristic_C = 1" "chr_handle characteristic_C = 10"
    "dsc_characteristic_handle descriptor_E = 10" "dsc_handle descriptor_E = 20"
    by (simp_all add: characteristic_C_def descriptor_E_def)
  have e: "characteristics init = []" "descriptors init = []"
    by (simp_all add: init_def)
  note t = add_not_atomic [of init characteristic_C descriptor_E,
      folded st_orphan_def st_orphan_descriptor_def]
  from t h i
  have "add_characteristic characteristic_C init =
        (Inl (KeyError (chr_service_handle characteristic_C)),
         init\<lparr>characteristics := characteristics init @
            [(chr_handle characteristic_C, characteristic_C)]\<rparr>)"
    and "get_characteristic st_orphan (Handle (chr_handle characteristic_C)) =
        Inr (Some characteristic_C)"
    and "\<forall>i. characteristic_C \<notin> set (service_characteristics st_orphan i)"
    and "add_descriptor descriptor_E init =
        (Inl (KeyError (dsc_characteristic_handle descriptor_E)),
         init\<lparr>descriptors := descriptors init @ [(dsc_handle descriptor_E, descriptor_E)]\<rparr>)"
    and "get_descriptor st_orphan_descriptor (Handle (dsc_handle descriptor_E)) =
        Some descriptor_E"
    by blast+
  then show ?thesis by (simp only: v e append_Nil simp_thms)
qed

subsection \<open>Lookup inside a service\<close>

text \<open>
  The comparison string of \<^verbatim>\<open>BleakGATTService.get_characteristic\<close> is
  \<open>service_query\<close>: lower-casing the expanded string is expanding the lower-cased one.
\<close>

lemma find_first:
  "\<forall>y \<in> set pre. \<not> P y \<Longrightarrow> P x \<Longrightarrow> List.find P (pre @ x # post) = Some x"
  by (induction pre) auto

lemma service_get_characteristic_query:
  "service_get_characteristic st s u =
     Inr (List.find (\<lambda>x. chr_uuid x = service_query u) (service_characteristics st (svc_obj s)))"
  by (cases u) (simp_all add: service_get_characteristic_def service_query_def lower_expand16)

text \<open>
  The method returns the first characteristic of the service's sequence whose stored
  UUID is the query string: \<^verbatim>\<open>None\<close> when no element passes, and the element \<open>x\<close>
  when no element before \<open>x\<close> passes and \<open>x\<close> does, whatever follows \<open>x\<close>. The
  result is never an error.
\<close>

lemma service_get_characteristic_find_first:
  "((\<forall>y \<in> set (service_characteristics st (svc_obj s)). chr_uuid y \<noteq> service_query u) \<longrightarrow>
      service_get_characteristic st s u = Inr None) \<and>
   (service_characteristics st (svc_obj s) = pre @ x # post \<and>
    (\<forall>y \<in> set pre. chr_uuid y \<noteq> service_query u) \<and> chr_uuid x = service_query u \<longrightarrow>
      service_get_characteristic st s u = Inr (Some x)) \<and>
   (\<exists>r. service_get_characteristic st s u = Inr r)"
proof (intro conjI impI)
  assume "\<forall>y \<in> set (service_characteristics st (svc_obj s)). chr_uuid y \<noteq> service_query u"
  then show "service_get_characteristic st s u = Inr None"
    by (simp add: service_get_characteristic_query find_None_iff)
next
  assume "service_characteristics st (svc_obj s) = pre @ x # post \<and>
    (\<forall>y \<in> set pre. chr_uuid y \<noteq> service_query u) \<and> chr_uuid x = service_query u"
  then show "service_get_characteristic st s u = Inr (Some x)"
    by (simp add: service_get_characteristic_query find_first)
next
  show "\<exists>r. service_get_characteristic st s u = Inr r"
    by (simp add: service_get_characteristic_query)
qed

text \<open>
  When every UUID in the service's sequence is lower-case, that is the first
  characteristic whose normalized UUID matches.
\<close>

lemma service_get_characteristic_lower_case:
  assumes "\<forall>y \<in> set (service_characteristics st (svc_obj s)). lower (chr_uuid y) = chr_uuid y"
  shows "service_get_characteristic st s u =
     Inr (List.find (\<lambda>x. lower (chr_uuid x) = service_query u)
            (service_characteristics st (svc_obj s)))"
proof -
  have "List.find (\<lambda>x. chr_uuid x = service_query u) xs =
      List.find (\<lambda>x. lower (chr_uuid x) = service_query u) xs"
    if "\<forall>y \<in> set xs. lower (chr_uuid y) = chr_uuid y" for xs
    using that by (induction xs) auto
  with assms show ?thesis
    by (simp add: service_get_characteristic_query)
qed

text \<open>
  Claim C8 does not hold of the code. The service U has one characteristic, and its
  normalized (lower-cased) UUID is the normalized query; the method returns \<^verbatim>\<open>None\<close>,
  because it compares the stored UUID as it is. The first-match policy itself is as
  claimed: service A has two characteristics with the UUID asked for, and the method
  returns the first and raises nothing.
\<close>

theorem service_get_characteristic_upper_case:
  "service_characteristics st_U (svc_obj service_U) = [characteristic_U] \<and>
   lower (chr_uuid characteristic_U) =
     service_query (Str ''00002A19-0000-1000-8000-00805F9B34FB'') \<and>
   service_get_characteristic st_U service_U (Str ''00002A19-0000-1000-8000-00805F9B34FB'') =
     Inr None \<and>
   service_characteristics st_ACD (svc_obj service_A) = [characteristic_C, characteristic_D] \<and>
   chr_uuid characteristic_D = chr_uuid characteristic_C \<and>
   service_get_characteristic st_ACD service_A (Str ''2A00'') = Inr (Some characteristic_C)"
  by code_simp

subsection \<open>What the characteristic lookups do not normalize\<close>

lemma get_characteristic_Some_filter:
  assumes "get_characteristic st (Uuid u) = Inr (Some c)"
  shows "characteristic_filter st u = [c]"
  using assms
  by (auto simp: get_characteristic_def characteristic_filter_def Let_def
      split: if_splits list.splits)

lemma characteristic_filter_uuid:
  assumes "c \<in> set (characteristic_filter st u)"
  shows "chr_uuid c = lower (py_str u)"
  using assms by (simp add: characteristic_filter_def)

text \<open>
  Claim C3 does not hold of the code. Characteristic C is stored under the expanded
  form of \<open>2a00\<close>. \<^verbatim>\<open>get_characteristic("2a00")\<close> of the collection finds nothing,
  though the expanded string finds C, the service's own \<^verbatim>\<open>get_characteristic("2a00")\<close>
  finds C, and \<^verbatim>\<open>get_service("1800")\<close> finds service A by its short form.
\<close>

theorem get_characteristic_short_uuid:
  "chr_uuid characteristic_C = expand16 ''2a00'' \<and>
   get_characteristic st_AC (Uuid (Str ''2a00'')) = Inr None \<and>
   get_characteristic st_AC (Uuid (Str (expand16 ''2a00''))) = Inr (Some characteristic_C) \<and>
   service_get_characteristic st_AC service_A (Str ''2a00'') = Inr (Some characteristic_C) \<and>
   get_service st_AC (Uuid (Str ''1800'')) = Inr (Some service_A)"
  by code_simp

text \<open>
  In general: what the collection's \<^verbatim>\<open>get_characteristic\<close> returns for a
  four-character string is never stored under an expanded UUID.
\<close>

lemma get_characteristic_never_expands:
  assumes "length s = 4" and "get_characteristic st (Uuid (Str s)) = Inr (Some c)"
  shows "chr_uuid c \<noteq> expand16 t"
proof -
  from assms(2) have "c \<in> set (characteristic_filter st (Str s))"
    by (simp add: get_characteristic_Some_filter)
  then have "chr_uuid c = lower s"
    by (simp add: characteristic_filter_uuid)
  then have "length (chr_uuid c) = 4" using assms(1) by (simp add: length_lower)
  then show ?thesis by (auto simp: expand16_def)
qed

text \<open>
  Claim C4 does not hold of the code. Service U and characteristic U are stored with
  upper-case letters in their UUID strings. \<^verbatim>\<open>get_service\<close> finds service U by the
  string in either case; the collection's \<^verbatim>\<open>get_characteristic\<close> and the service's
  \<^verbatim>\<open>get_characteristic\<close> find characteristic U by neither.
\<close>

theorem uppercase_uuid_lookup:
  "svc_uuid service_U = ''0000180A-0000-1000-8000-00805F9B34FB'' \<and>
   chr_uuid characteristic_U = ''00002A19-0000-1000-8000-00805F9B34FB'' \<and>
   service_characteristics st_U (svc_obj service_U) = [characteristic_U] \<and>
   get_service st_U (Uuid (Str ''0000180A-0000-1000-8000-00805F9B34FB'')) =
     Inr (Some service_U) \<and>
   get_service st_U (Uuid (Str ''0000180a-0000-1000-8000-00805f9b34fb'')) =
     Inr (Some service_U) \<and>
   get_characteristic st_U (Uuid (Str ''00002A19-0000-1000-8000-00805F9B34FB'')) = Inr None \<and>
   get_characteristic st_U (Uuid (Str ''00002a19-0000-1000-8000-00805f9b34fb'')) = Inr None \<and>
   service_get_characteristic st_U service_U (Str ''00002A19-0000-1000-8000-00805F9B34FB'') =
     Inr None \<and>
   service_get_characteristic st_U service_U (Str ''00002a19-0000-1000-8000-00805f9b34fb'') =
     Inr None"
  by code_simp

text \<open>
  In general: \<^verbatim>\<open>get_service\<close> depends on the lower-cased argument only, and lower-cases
  the stored UUID (\<open>service_matches\<close>); the two characteristic lookups return only
  characteristics whose stored UUID is its own lower-case form.
\<close>

lemma get_service_case_insensitive:
  "lower (py_str u) = lower (py_str u') \<Longrightarrow> get_service st (Uuid u) = get_service st (Uuid u')"
  by (simp add: get_service_def)

lemma get_characteristic_needs_lower_case:
  assumes "get_characteristic st (Uuid u) = Inr (Some c)"
  shows "lower (chr_uuid c) = chr_uuid c"
proof -
  from assms have "c \<in> set (characteristic_filter st u)"
    by (simp add: get_characteristic_Some_filter)
  then have "chr_uuid c = lower (py_str u)"
    by (rule characteristic_filter_uuid)
  then show ?thesis by (simp add: lower_idem)
qed

lemma service_get_characteristic_needs_lower_case:
  assumes "service_get_characteristic st s u = Inr (Some c)"
  shows "lower (chr_uuid c) = chr_uuid c"
proof -
  from assms have "chr_uuid c = service_query u"
    by (auto simp: service_get_characteristic_query find_Some_iff)
  then show ?thesis
    by (cases u) (simp_all add: service_query_def lower_idem lower_expand16 [symmetric])
qed

subsection \<open>A characteristic and its service\<close>




text \<open>
  Consistency holds in the empty collection, and \<^verbatim>\<open>add_service\<close> keeps it for a
  service object that is new to the collection, has no characteristics yet, and whose
  handle no stored characteristic names.
\<close>

lemma consistent_init: "consistent init"
  by (simp add: consistent_def views_agree_def init_def)

lemma consistent_add_service:
  assumes con: "consistent st"
    and obj: "svc_obj s \<notin> (svc_obj \<circ> snd) ` set (services st)"
    and empty: "service_characteristics st (svc_obj s) = []"
    and unnamed: "\<forall>x \<in> set (dict_values (characteristics st)). chr_service_handle x \<noteq> svc_handle s"
  shows "consistent (snd (add_service s st))"
proof (cases "map_of (services st) (svc_handle s)")
  case (Some a)
  with con show ?thesis
    by (simp add: add_service_def dict_contains_def consistent_def views_agree_def)
next
  case None
  then have f: "services (snd (add_service s st)) = services st @ [(svc_handle s, s)]"
    "characteristics (snd (add_service s st)) = characteristics st"
    "service_characteristics (snd (add_service s st)) = service_characteristics st"
    by (simp_all add: add_service_def dict_contains_def dict_set_fresh)
  from None have k: "svc_handle s \<notin> fst ` set (services st)"
    by (simp add: map_of_eq_None_iff)
  from unnamed have n: "filter (\<lambda>x. chr_service_handle x = svc_handle s)
      (dict_values (characteristics st)) = []"
    by (simp add: filter_empty_conv)
  from con k obj empty n show ?thesis
    unfolding consistent_def views_agree_def f by auto
qed




end
